theory Spec2Isabelle
  imports Complex_Main
begin

section \<open>Python values\<close>

text \<open>
  A Python \<open>str\<close> is a sequence of Unicode code points, so it is modelled as a list of
  code points (natural numbers): \<open>len\<close> is \<open>length\<close>, and the em dash is one element.
  \<open>asc\<close> embeds an ASCII literal.
\<close>

type_synonym pystr = "nat list"

definition asc :: "string \<Rightarrow> pystr" where
  "asc s = map of_char s"

definition em_dash :: nat where
  "em_dash = 8212"

definition newline :: nat where
  "newline = 10"

definition is_ascii :: "pystr \<Rightarrow> bool" where
  "is_ascii s = list_all (\<lambda>c. c < 128) s"

text \<open>
  The characters \<open>str.strip()\<close> removes when called without an argument, and that
  \<open>int()\<close> skips around a literal: the code points for which \<open>str.isspace\<close> holds.
\<close>

definition py_isspace :: "nat \<Rightarrow> bool" where
  "py_isspace c =
     ((9 \<le> c \<and> c \<le> 13) \<or> (28 \<le> c \<and> c \<le> 32) \<or> c = 133 \<or> c = 160 \<or> c = 5760
      \<or> (8192 \<le> c \<and> c \<le> 8202) \<or> c = 8232 \<or> c = 8233 \<or> c = 8239 \<or> c = 8287
      \<or> c = 12288)"

definition strip_where :: "(nat \<Rightarrow> bool) \<Rightarrow> pystr \<Rightarrow> pystr" where
  "strip_where P s = rev (dropWhile P (rev (dropWhile P s)))"

definition py_strip :: "pystr \<Rightarrow> pystr" where
  "py_strip s = strip_where py_isspace s"

definition py_strip_chars :: "pystr \<Rightarrow> pystr \<Rightarrow> pystr" where
  "py_strip_chars chars s = strip_where (\<lambda>c. c \<in> set chars) s"

text \<open>\<open>s.split(sep)\<close> for a separator of one code point.\<close>

fun py_split :: "nat \<Rightarrow> pystr \<Rightarrow> pystr list" where
  "py_split sep [] = [[]]"
| "py_split sep (c # cs) =
     (if c = sep then [] # py_split sep cs
      else (case py_split sep cs of
              [] \<Rightarrow> [[c]]
            | p # ps \<Rightarrow> (c # p) # ps))"

text \<open>\<open>sub in s\<close> on strings: \<open>sub\<close> occurs as a contiguous run.\<close>

fun starts_with :: "pystr \<Rightarrow> pystr \<Rightarrow> bool" where
  "starts_with [] s = True"
| "starts_with (x # xs) [] = False"
| "starts_with (x # xs) (c # cs) = (x = c \<and> starts_with xs cs)"

fun py_contains :: "pystr \<Rightarrow> pystr \<Rightarrow> bool" where
  "py_contains sub [] = (sub = [])"
| "py_contains sub (c # cs) = (starts_with sub (c # cs) \<or> py_contains sub cs)"

subsection \<open>Exceptions\<close>

text \<open>
  An exception is its class and the text \<open>str(e)\<close>. Only classes below \<open>Exception\<close>
  occur: the interrupts that derive from \<open>BaseException\<close> alone are raised by the
  interpreter, not by the calls modelled here. A computation that may raise returns
  \<open>py_exn + 'a\<close>, with \<open>Inl\<close> the exception.
\<close>

datatype exn_class =
    ValueError | OverflowError | ZeroDivisionError | AttributeError | TypeError | KeyError
  | Timeout | HTTPError | RequestException | OtherException

datatype py_exn = Exn exn_class pystr

fun exn_class_of :: "py_exn \<Rightarrow> exn_class" where
  "exn_class_of (Exn c m) = c"

fun exn_str :: "py_exn \<Rightarrow> pystr" where
  "exn_str (Exn c m) = m"

text \<open>
  \<open>requests.exceptions.Timeout\<close> and \<open>HTTPError\<close> are subclasses of
  \<open>RequestException\<close>.
\<close>

fun is_Timeout :: "exn_class \<Rightarrow> bool" where
  "is_Timeout Timeout = True"
| "is_Timeout c = False"

fun is_RequestException :: "exn_class \<Rightarrow> bool" where
  "is_RequestException Timeout = True"
| "is_RequestException HTTPError = True"
| "is_RequestException RequestException = True"
| "is_RequestException c = False"

subsection \<open>JSON values\<close>

datatype json =
    JNull | JBool bool | JInt int | JFloat real | JStr pystr
  | JArr "json list" | JObj "(pystr \<times> json) list"

text \<open>Truth value of a decoded JSON value, as \<open>if v\<close> and \<open>a and b\<close> test it.\<close>

fun truthy :: "json \<Rightarrow> bool" where
  "truthy JNull = False"
| "truthy (JBool b) = b"
| "truthy (JInt i) = (i \<noteq> 0)"
| "truthy (JFloat x) = (x \<noteq> 0)"
| "truthy (JStr s) = (s \<noteq> [])"
| "truthy (JArr xs) = (xs \<noteq> [])"
| "truthy (JObj kvs) = (kvs \<noteq> [])"

subsection \<open>The world outside the program\<close>

text \<open>
  What the program calls and does not define: the generative model (\<open>generate_content\<close>
  gives the \<open>.text\<close> of the response to a prompt, or raises), TextBlob's polarity of a
  text, and the parts of Python's built-ins that depend on the Unicode tables or on the
  interpreter's version: \<open>int()\<close> on a literal that is not plain ASCII or is longer than
  the digit limit, \<open>str.lower()\<close> on a string that is not ASCII, and the formatting of
  a value that is not a \<open>str\<close> inside an f-string. Every theorem below holds for every
  world.
\<close>

record world =
  generate_content :: "pystr \<Rightarrow> py_exn + pystr"
  polarity :: "pystr \<Rightarrow> real"
  int_other :: "pystr \<Rightarrow> py_exn + int"
  lower_other :: "pystr \<Rightarrow> pystr"
  format_other :: "json \<Rightarrow> pystr"

section \<open>Blog rating\<close>

subsection \<open>The built-ins the rating uses\<close>

definition is_digit :: "nat \<Rightarrow> bool" where
  "is_digit c = (48 \<le> c \<and> c \<le> 57)"

text \<open>
  The digits of a decimal literal after the first one: digits, each optionally preceded
  by a single underscore.
\<close>

fun more_digits :: "nat \<Rightarrow> pystr \<Rightarrow> nat option" where
  "more_digits acc [] = Some acc"
| "more_digits acc [c] = (if is_digit c then Some (acc * 10 + (c - 48)) else None)"
| "more_digits acc (c # d # ds) =
     (if is_digit c then more_digits (acc * 10 + (c - 48)) (d # ds)
      else if c = 95 \<and> is_digit d then more_digits (acc * 10 + (d - 48)) ds
      else None)"

definition unsigned_literal :: "pystr \<Rightarrow> nat option" where
  "unsigned_literal s =
     (case s of
        [] \<Rightarrow> None
      | c # cs \<Rightarrow> if is_digit c then more_digits (c - 48) cs else None)"

definition ascii_literal :: "pystr \<Rightarrow> int option" where
  "ascii_literal s =
     (case s of
        [] \<Rightarrow> None
      | c # cs \<Rightarrow>
          if c = 45 then map_option (\<lambda>n. - int n) (unsigned_literal cs)
          else if c = 43 then map_option int (unsigned_literal cs)
          else map_option int (unsigned_literal s))"

definition invalid_literal :: py_exn where
  "invalid_literal = Exn ValueError (asc ''invalid literal for int() with base 10'')"

text \<open>
  \<open>int(s)\<close> on a string, base 10. On an ASCII literal of at most 4300 characters every
  Python that runs this program (3.6 on, for its f-strings) agrees: whitespace around
  it is skipped, then a sign and the digits are read, and anything else raises
  \<open>ValueError\<close> (whose text, which goes on with the literal quoted, no handler of
  this program reads). Other strings are left to the world.
\<close>

definition py_int :: "world \<Rightarrow> pystr \<Rightarrow> py_exn + int" where
  "py_int w s =
     (let t = py_strip s
      in if is_ascii t \<and> length t \<le> 4300
         then (case ascii_literal t of
                 None \<Rightarrow> Inl invalid_literal
               | Some n \<Rightarrow> Inr n)
         else int_other w t)"

text \<open>
  \<open>a / b\<close> on integers gives the double nearest to the quotient and raises
  \<open>OverflowError\<close> when that is beyond the largest double, which is so from
  \<open>2 ^ 1024 - 2 ^ 970\<close> on. The model keeps the exact quotient in place of the nearest
  double. For the one division of this program, by 5, \<open>round\<close> of either is the same
  integer as long as the quotient is below \<open>2 ^ 49\<close> in absolute value (the double is
  within \<open>2 ^ -5\<close> of a quotient whose distance to the next half is at least
  \<open>1 / 10\<close>); beyond, both are far outside \<open>[1, 5]\<close> on the same side, and the
  program only ever uses the result clamped to \<open>[1, 5]\<close>.
\<close>

definition division_overflow :: py_exn where
  "division_overflow =
     Exn OverflowError (asc ''integer division result too large for a float'')"

definition division_by_zero :: py_exn where
  "division_by_zero = Exn ZeroDivisionError (asc ''division by zero'')"

definition double_limit :: real where
  "double_limit = 2 ^ 1024 - 2 ^ 970"

definition py_truediv :: "int \<Rightarrow> int \<Rightarrow> py_exn + real" where
  "py_truediv a b =
     (if b = 0 then Inl division_by_zero
      else if double_limit \<le> \<bar>of_int a / of_int b :: real\<bar>
      then Inl division_overflow
      else Inr (of_int a / of_int b))"

text \<open>\<open>round(x)\<close> with one argument: to the nearest integer, a tie to the even one.\<close>

definition py_round :: "real \<Rightarrow> int" where
  "py_round x =
     (let f = \<lfloor>x\<rfloor>; d = x - of_int f
      in if d < 1 / 2 then f
         else if 1 / 2 < d then f + 1
         else if even f then f else f + 1)"

subsection \<open>The three rating functions\<close>

definition rate_with_textblob :: "world \<Rightarrow> pystr \<Rightarrow> int" where
  "rate_with_textblob w content =
     (let p = polarity w content
      in if p \<le> - 0.6 then 1
         else if p \<le> - 0.2 then 2
         else if p \<le> 0.2 then 3
         else if p \<le> 0.6 then 4
         else 5)"

definition rating_prompt :: "pystr \<Rightarrow> pystr" where
  "rating_prompt content =
     asc ''You are an expert finance content reviewer.'' @ [newline]
     @ asc ''Rate the following blog on a scale of 1 to 5 based on:'' @ [newline]
     @ asc ''- Relevance to finance topics'' @ [newline]
     @ asc ''- Depth, clarity, grammar, coherence'' @ [newline, newline]
     @ asc ''*Only return a single integer (1 to 5)*.'' @ [newline, newline]
     @ asc ''Content:'' @ [newline] @ content"

text \<open>
  The body of the \<open>try\<close> raises when the model does or when \<open>int\<close> does; the bare
  \<open>except\<close> turns every exception into \<open>None\<close>. The result keeps the type of a
  computation that may raise, so that "does not raise" is a statement about it.
\<close>

definition rate_with_gemini :: "world \<Rightarrow> pystr \<Rightarrow> py_exn + int option" where
  "rate_with_gemini w content =
     (case (case generate_content w (rating_prompt content) of
              Inl e \<Rightarrow> Inl e
            | Inr text \<Rightarrow> py_int w (py_strip text)) of
        Inl e \<Rightarrow> Inr None
      | Inr n \<Rightarrow> Inr (Some n))"

text \<open>
  \<open>if gemini_rating:\<close> holds for an integer other than 0; it fails for \<open>None\<close> and
  for 0.
\<close>

definition rate_blog :: "world \<Rightarrow> pystr \<Rightarrow> py_exn + int" where
  "rate_blog w content =
     (case rate_with_gemini w content of
        Inl e \<Rightarrow> Inl e
      | Inr gemini_rating \<Rightarrow>
          (let blob_rating = rate_with_textblob w content
           in case gemini_rating of
                None \<Rightarrow> Inr blob_rating
              | Some g \<Rightarrow>
                  if g \<noteq> 0
                  then (case py_truediv (g * 4 + blob_rating) 5 of
                          Inl e \<Rightarrow> Inl e
                        | Inr q \<Rightarrow> (let final = py_round q in Inr (max 1 (min 5 final))))
                  else Inr blob_rating))"


section \<open>Record store and session state\<close>

record blog =
  b_id :: int
  b_user_name :: pystr
  b_title :: pystr
  b_content :: pystr
  b_tag :: pystr
  b_time :: nat
  b_likes :: int
  b_comments :: int
  b_rating :: int

record summary =
  s_id :: int
  s_title :: pystr
  s_type :: pystr
  s_content :: pystr
  s_summary :: pystr
  s_timestamp :: nat

text \<open>
  The two files of the storage directory, each absent or holding bytes, and the
  \<open>pickle\<close> library, which the program calls and does not define: what \<open>dump\<close>
  writes for a list of records and what \<open>load\<close> makes of the bytes of a file (it may
  raise). Opening a file of the directory that the program has created is taken to
  succeed.
\<close>

type_synonym bytes = "nat list"

record files =
  blogs_pkl :: "bytes option"
  summaries_pkl :: "bytes option"

record pickle =
  dump_blogs :: "blog list \<Rightarrow> bytes"
  undump_blogs :: "bytes \<Rightarrow> py_exn + blog list"
  dump_summaries :: "summary list \<Rightarrow> bytes"
  undump_summaries :: "bytes \<Rightarrow> py_exn + summary list"

definition save_blogs :: "pickle \<Rightarrow> blog list \<Rightarrow> files \<Rightarrow> files" where
  "save_blogs pk blogs fs = fs\<lparr>blogs_pkl := Some (dump_blogs pk blogs)\<rparr>"

definition load_blogs :: "pickle \<Rightarrow> files \<Rightarrow> py_exn + blog list" where
  "load_blogs pk fs =
     (case blogs_pkl fs of
        Some f \<Rightarrow> undump_blogs pk f
      | None \<Rightarrow> Inr [])"

definition save_summaries :: "pickle \<Rightarrow> summary list \<Rightarrow> files \<Rightarrow> files" where
  "save_summaries pk summaries fs = fs\<lparr>summaries_pkl := Some (dump_summaries pk summaries)\<rparr>"

definition load_summaries :: "pickle \<Rightarrow> files \<Rightarrow> py_exn + summary list" where
  "load_summaries pk fs =
     (case summaries_pkl fs of
        Some f \<Rightarrow> undump_summaries pk f
      | None \<Rightarrow> Inr [])"

text \<open>\<open>st.session_state\<close> together with the files it is mirrored to.\<close>

record app_state =
  blogs :: "blog list"
  blog_counter :: int
  summaries :: "summary list"
  summary_counter :: int
  disk :: files

text \<open>
  The initialisation of a fresh session (none of the four keys is in the session state
  yet): the lists are loaded, each counter starts one above the length of its list.
\<close>

definition init_session :: "pickle \<Rightarrow> files \<Rightarrow> py_exn + app_state" where
  "init_session pk fs =
     (case load_blogs pk fs of
        Inl e \<Rightarrow> Inl e
      | Inr bs \<Rightarrow>
          (case load_summaries pk fs of
             Inl e \<Rightarrow> Inl e
           | Inr ss \<Rightarrow>
               Inr \<lparr>blogs = bs, blog_counter = int (length bs) + 1,
                    summaries = ss, summary_counter = int (length ss) + 1,
                    disk = fs\<rparr>))"

section \<open>Document summaries\<close>

datatype doc_type =
    General | Financial_Statement | Balance_Sheet | Income_Statement
  | Cash_Flow | Investment_Report | Audit_Report | Business_Plan

fun doc_type_label :: "doc_type \<Rightarrow> pystr" where
  "doc_type_label General = asc ''General''"
| "doc_type_label Financial_Statement = asc ''Financial Statement''"
| "doc_type_label Balance_Sheet = asc ''Balance Sheet''"
| "doc_type_label Income_Statement = asc ''Income Statement''"
| "doc_type_label Cash_Flow = asc ''Cash Flow''"
| "doc_type_label Investment_Report = asc ''Investment Report''"
| "doc_type_label Audit_Report = asc ''Audit Report''"
| "doc_type_label Business_Plan = asc ''Business Plan''"

definition ascii_lower :: "nat \<Rightarrow> nat" where
  "ascii_lower c = (if 65 \<le> c \<and> c \<le> 90 then c + 32 else c)"

text \<open>\<open>s.lower()\<close>: on an ASCII string the letters A to Z move to a to z.\<close>

definition py_lower :: "world \<Rightarrow> pystr \<Rightarrow> pystr" where
  "py_lower w s = (if is_ascii s then map ascii_lower s else lower_other w s)"

text \<open>\<open>str(n)\<close> for an integer, as the f-string \<open>Document {n}\<close> renders it.\<close>

fun nat_digits :: "nat \<Rightarrow> pystr" where
  "nat_digits n = (if n < 10 then [48 + n] else nat_digits (n div 10) @ [48 + n mod 10])"

definition py_str_int :: "int \<Rightarrow> pystr" where
  "py_str_int i = (if i < 0 then 45 # nat_digits (nat (- i)) else nat_digits (nat i))"

definition summary_prompt :: "pystr \<Rightarrow> pystr \<Rightarrow> pystr" where
  "summary_prompt content doc_type =
     [newline]
     @ asc ''You are an expert financial analyst specializing in document analysis.''
     @ [newline, newline]
     @ asc ''Document Type: '' @ doc_type @ [newline, newline]
     @ asc ''Please provide a comprehensive summary of this financial document ''
     @ asc ''with the following structure:'' @ [newline, newline]
     @ asc ''1. **Executive Summary** (2-3 sentences)'' @ [newline]
     @ asc ''2. **Key Financial Metrics** (bullet points of important numbers, ''
     @ asc ''ratios, or figures)'' @ [newline]
     @ asc ''3. **Main Findings** (detailed insights and observations)'' @ [newline]
     @ asc ''4. **Risk Factors** (if any are mentioned)'' @ [newline]
     @ asc ''5. **Recommendations** (actionable insights for stakeholders)''
     @ [newline, newline]
     @ asc ''Document Content:'' @ [newline] @ content @ [newline, newline]
     @ asc ''Provide a clear, professional summary suitable for executives and ''
     @ asc ''investors.'' @ [newline]"

definition summarize_document :: "world \<Rightarrow> pystr \<Rightarrow> pystr \<Rightarrow> pystr" where
  "summarize_document w content doc_type =
     (case generate_content w (summary_prompt content doc_type) of
        Inr text \<Rightarrow> py_strip text
      | Inl e \<Rightarrow> asc ''Error generating summary: '' @ exn_str e)"

section \<open>The two submission handlers\<close>

text \<open>
  What the page shows after a submission. The handlers are the bodies of
  \<open>if submitted:\<close> in the blog form and of the \<open>Generate Summary\<close> button; the
  values of the form's widgets and the reading of the clock are their arguments.
\<close>

datatype feedback =
    Blog_fields_missing | Blog_too_short | Blog_published int
  | Summary_empty | Summary_too_short | Summary_generated pystr

record blog_form =
  f_user_name :: pystr
  f_title :: pystr
  f_content :: pystr
  f_tag :: pystr

record summary_form =
  d_title :: pystr
  d_type :: doc_type
  d_content :: pystr

definition publish_blog ::
  "pickle \<Rightarrow> world \<Rightarrow> nat \<Rightarrow> blog_form \<Rightarrow> app_state \<Rightarrow> py_exn + (feedback \<times> app_state)" where
  "publish_blog pk w now f st =
     (if f_user_name f = [] \<or> f_title f = [] \<or> f_content f = []
      then Inr (Blog_fields_missing, st)
      else if length (f_content f) < 50
      then Inr (Blog_too_short, st)
      else (case rate_blog w (f_content f) of
              Inl e \<Rightarrow> Inl e
            | Inr rating \<Rightarrow>
                (let new_blog =
                       \<lparr>b_id = blog_counter st,
                        b_user_name = f_user_name f,
                        b_title = f_title f,
                        b_content = f_content f,
                        b_tag = (if f_tag f \<noteq> [] then f_tag f else asc ''General Finance''),
                        b_time = now,
                        b_likes = 0,
                        b_comments = 0,
                        b_rating = rating\<rparr>;
                     blogs' = blogs st @ [new_blog]
                 in Inr (Blog_published rating,
                         st\<lparr>blogs := blogs',
                            blog_counter := blog_counter st + 1,
                            disk := save_blogs pk blogs' (disk st)\<rparr>))))"

definition generate_summary ::
  "pickle \<Rightarrow> world \<Rightarrow> nat \<Rightarrow> summary_form \<Rightarrow> app_state \<Rightarrow> feedback \<times> app_state" where
  "generate_summary pk w now f st =
     (if py_strip (d_content f) = []
      then (Summary_empty, st)
      else if length (py_strip (d_content f)) < 100
      then (Summary_too_short, st)
      else (let summary = summarize_document w (d_content f)
                            (py_lower w (doc_type_label (d_type f)));
                summary_obj =
                  \<lparr>s_id = summary_counter st,
                   s_title = (if d_title f \<noteq> [] then d_title f
                              else asc ''Document '' @ py_str_int (summary_counter st)),
                   s_type = doc_type_label (d_type f),
                   s_content = (if 500 < length (d_content f)
                                then take 500 (d_content f) @ asc ''...''
                                else d_content f),
                   s_summary = summary,
                   s_timestamp = now\<rparr>;
                summaries' = summaries st @ [summary_obj]
            in (Summary_generated summary,
                st\<lparr>summaries := summaries',
                   summary_counter := summary_counter st + 1,
                   disk := save_summaries pk summaries' (disk st)\<rparr>)))"

text \<open>
  A session is a sequence of submissions, each with the world it meets. A submission
  that raises ends its run of the script and leaves the state as it was.
\<close>

datatype event =
    Publish_blog world nat blog_form
  | Generate_summary world nat summary_form

fun step :: "pickle \<Rightarrow> app_state \<Rightarrow> event \<Rightarrow> app_state" where
  "step pk st (Publish_blog w now f) =
     (case publish_blog pk w now f st of
        Inl e \<Rightarrow> st
      | Inr r \<Rightarrow> snd r)"
| "step pk st (Generate_summary w now f) = snd (generate_summary pk w now f st)"

definition run :: "pickle \<Rightarrow> app_state \<Rightarrow> event list \<Rightarrow> app_state" where
  "run pk st evs = foldl (step pk) st evs"

section \<open>Market alerts\<close>

subsection \<open>Fetching the headlines\<close>

text \<open>
  What \<open>requests.get\<close> gives back: it raises, or there is a response with a status,
  the text \<open>raise_for_status\<close> would raise with, and what \<open>.json()\<close> does.
\<close>

record response =
  status_code :: nat
  status_text :: pystr
  json_body :: "py_exn + json"

definition raise_for_status :: "response \<Rightarrow> py_exn + unit" where
  "raise_for_status r =
     (if 400 \<le> status_code r \<and> status_code r < 600
      then Inl (Exn HTTPError (status_text r))
      else Inr ())"

fun type_name :: "json \<Rightarrow> pystr" where
  "type_name JNull = asc ''NoneType''"
| "type_name (JBool b) = asc ''bool''"
| "type_name (JInt i) = asc ''int''"
| "type_name (JFloat x) = asc ''float''"
| "type_name (JStr s) = asc ''str''"
| "type_name (JArr xs) = asc ''list''"
| "type_name (JObj kvs) = asc ''dict''"

text \<open>\<open>v.get(key, default)\<close>: only a dict has the method.\<close>

fun json_get :: "json \<Rightarrow> pystr \<Rightarrow> json \<Rightarrow> py_exn + json" where
  "json_get (JObj kvs) key dflt =
     Inr (case map_of kvs key of None \<Rightarrow> dflt | Some v \<Rightarrow> v)"
| "json_get v key dflt =
     Inl (Exn AttributeError
            ([39] @ type_name v @ [39] @ asc '' object has no attribute ''
             @ [39] @ asc ''get'' @ [39]))"

text \<open>\<open>v[key]\<close> on a dict.\<close>

fun json_item :: "json \<Rightarrow> pystr \<Rightarrow> py_exn + json" where
  "json_item (JObj kvs) key =
     (case map_of kvs key of
        None \<Rightarrow> Inl (Exn KeyError ([39] @ key @ [39]))
      | Some v \<Rightarrow> Inr v)"
| "json_item v key =
     Inl (Exn TypeError ([39] @ type_name v @ [39] @ asc '' object is not subscriptable''))"

text \<open>
  What \<open>for article in v\<close> runs over: the elements of a list, the keys of a dict, the
  characters of a string; the other values are not iterable.
\<close>

fun py_iter :: "json \<Rightarrow> py_exn + json list" where
  "py_iter (JArr xs) = Inr xs"
| "py_iter (JObj kvs) = Inr (map (\<lambda>kv. JStr (fst kv)) kvs)"
| "py_iter (JStr s) = Inr (map (\<lambda>c. JStr [c]) s)"
| "py_iter v = Inl (Exn TypeError ([39] @ type_name v @ [39] @ asc '' object is not iterable''))"

text \<open>A value inside an f-string: a \<open>str\<close> as it is.\<close>

fun py_format :: "world \<Rightarrow> json \<Rightarrow> pystr" where
  "py_format w (JStr s) = s"
| "py_format w v = format_other w v"

text \<open>
  One step of the list comprehension: the condition
  \<open>article.get('title') and article.get('description')\<close>, then the f-string.
\<close>

definition article_headline :: "world \<Rightarrow> json \<Rightarrow> py_exn + pystr option" where
  "article_headline w article =
     (case json_get article (asc ''title'') JNull of
        Inl e \<Rightarrow> Inl e
      | Inr t \<Rightarrow>
          if \<not> truthy t then Inr None
          else (case json_get article (asc ''description'') JNull of
                  Inl e \<Rightarrow> Inl e
                | Inr d \<Rightarrow>
                    if \<not> truthy d then Inr None
                    else (case json_item article (asc ''title'') of
                            Inl e \<Rightarrow> Inl e
                          | Inr tv \<Rightarrow>
                              (case json_item article (asc ''description'') of
                                 Inl e \<Rightarrow> Inl e
                               | Inr dv \<Rightarrow>
                                   Inr (Some (py_format w tv @ asc ''. ''
                                              @ py_format w dv))))))"

fun headlines :: "world \<Rightarrow> json list \<Rightarrow> py_exn + pystr list" where
  "headlines w [] = Inr []"
| "headlines w (article # rest) =
     (case article_headline w article of
        Inl e \<Rightarrow> Inl e
      | Inr h \<Rightarrow>
          (case headlines w rest of
             Inl e \<Rightarrow> Inl e
           | Inr hs \<Rightarrow> Inr (case h of None \<Rightarrow> hs | Some x \<Rightarrow> x # hs)))"

datatype notice =
    News_API_Error pystr
  | Request_timed_out
  | Network_error py_exn
  | Error_fetching_news py_exn

definition news_url :: "pystr \<Rightarrow> pystr" where
  "news_url api_key =
     asc ''https://newsapi.org/v2/top-headlines?category=business&language=en''
     @ asc ''&pageSize=10&apiKey='' @ api_key"

text \<open>
  The body of the \<open>try\<close>. The result is the notices shown with \<open>st.error\<close> and the
  list returned.
\<close>

definition fetch_news_try ::
  "world \<Rightarrow> (pystr \<Rightarrow> py_exn + response) \<Rightarrow> pystr \<Rightarrow> py_exn + (notice list \<times> pystr list)" where
  "fetch_news_try w requests_get api_key =
     (case requests_get (news_url api_key) of
        Inl e \<Rightarrow> Inl e
      | Inr resp \<Rightarrow>
     (case raise_for_status resp of
        Inl e \<Rightarrow> Inl e
      | Inr u \<Rightarrow>
     (case json_body resp of
        Inl e \<Rightarrow> Inl e
      | Inr data \<Rightarrow>
     (case json_get data (asc ''status'') JNull of
        Inl e \<Rightarrow> Inl e
      | Inr status \<Rightarrow>
          if status = JStr (asc ''error'')
          then (case json_get data (asc ''message'') (JStr (asc ''Unknown error'')) of
                  Inl e \<Rightarrow> Inl e
                | Inr msg \<Rightarrow>
                    Inr ([News_API_Error (asc ''News API Error: '' @ py_format w msg)], []))
          else (case json_get data (asc ''articles'') (JArr []) of
                  Inl e \<Rightarrow> Inl e
                | Inr articles \<Rightarrow>
                    if \<not> truthy articles then Inr ([], [])
                    else (case py_iter articles of
                            Inl e \<Rightarrow> Inl e
                          | Inr as \<Rightarrow>
                              (case headlines w as of
                                 Inl e \<Rightarrow> Inl e
                               | Inr hs \<Rightarrow> Inr ([], hs))))))))"

text \<open>
  The three handlers, in the order of the source: \<open>Timeout\<close> first, then the other
  \<open>RequestException\<close>s, then every other \<open>Exception\<close>.
\<close>

definition fetch_news ::
  "world \<Rightarrow> (pystr \<Rightarrow> py_exn + response) \<Rightarrow> pystr \<Rightarrow> py_exn + (notice list \<times> pystr list)" where
  "fetch_news w requests_get api_key =
     (case fetch_news_try w requests_get api_key of
        Inr r \<Rightarrow> Inr r
      | Inl e \<Rightarrow>
          if is_Timeout (exn_class_of e) then Inr ([Request_timed_out], [])
          else if is_RequestException (exn_class_of e) then Inr ([Network_error e], [])
          else Inr ([Error_fetching_news e], []))"

subsection \<open>Parsing the alerts\<close>

record alert =
  a_headline :: pystr
  a_stock :: pystr
  a_impact :: pystr
  a_summary :: pystr

text \<open>The argument of \<open>strip\<close>: space, hyphen, asterisk, em dash.\<close>

definition alert_strip_chars :: pystr where
  "alert_strip_chars = [32, 45, 42, em_dash]"

text \<open>
  The loop of \<open>parse_alerts\<close>, with the list \<open>alerts\<close> it appends to. Nothing in its
  body raises on a \<open>str\<close>, so the \<open>try\<close> around it has no branch here.
\<close>

fun parse_alerts_loop :: "alert list \<Rightarrow> pystr list \<Rightarrow> alert list" where
  "parse_alerts_loop alerts [] = alerts"
| "parse_alerts_loop alerts (line # rest) =
     (if py_strip line = [] \<or> \<not> py_contains [em_dash] line
      then parse_alerts_loop alerts rest
      else (let parts = map (py_strip_chars alert_strip_chars) (py_split em_dash line)
            in if 4 \<le> length parts
               then parse_alerts_loop
                      (alerts @ [\<lparr>a_headline = parts ! 0, a_stock = parts ! 1,
                                  a_impact = parts ! 2, a_summary = parts ! 3\<rparr>])
                      rest
               else parse_alerts_loop alerts rest))"

definition parse_alerts :: "pystr list \<Rightarrow> alert list" where
  "parse_alerts lines = parse_alerts_loop [] lines"

section \<open>Finance glossary\<close>

definition text_Balance_Sheet :: pystr where
  "text_Balance_Sheet =
     [2348, 2376, 2354, 2375, 2306, 2360] @ asc '' '' @ [2358, 2368, 2335]
     @ asc '' / Bilan / Balance general - A financial statement showing ''
     @ asc ''assets, liabilities, and equity''"

definition text_Net_Profit :: pystr where
  "text_Net_Profit =
     [2358, 2369, 2342, 2381, 2343] @ asc '' '' @ [2354, 2366, 2349] @ asc '' / B'' @ [233]
     @ asc ''n'' @ [233]
     @ asc ''fice net / Utilidad neta - Revenue minus all expenses and '' @ asc ''taxes''"

definition text_Assets :: pystr where
  "text_Assets =
     [2346, 2352, 2367, 2360, 2306, 2346, 2340, 2381, 2340, 2367, 2351, 2366] @ [2305]
     @ asc '' / Actifs / Activos - Resources owned by a business with ''
     @ asc ''economic value''"

definition text_Liabilities :: pystr where
  "text_Liabilities =
     [2342, 2375, 2344, 2342, 2366, 2352, 2367, 2351, 2366, 2305]
     @ asc '' / Passifs / Pasivos - Financial obligations or debts owed''"

definition text_Revenue :: pystr where
  "text_Revenue =
     [2352, 2366, 2332, 2360, 2381, 2357] @ asc '' / Chiffre d'' @ [39]
     @ asc ''affaires / Ingresos - Total income generated from business ''
     @ asc ''operations''"

definition text_Depreciation :: pystr where
  "text_Depreciation =
     [2350, 2370, 2354, 2381, 2351, 2361, 2381, 2352, 2366, 2360]
     @ asc '' / Amortissement / Depreciaci'' @ [243]
     @ asc ''n - Decrease in asset value over time''"

definition text_Dividend :: pystr where
  "text_Dividend =
     [2354, 2366, 2349, 2366, 2306, 2358]
     @ asc '' / Dividende / Dividendo - Payment made to shareholders ''
     @ asc ''from profits''"

definition text_Cash_Flow :: pystr where
  "text_Cash_Flow =
     [2344, 2325, 2342, 2368] @ asc '' '' @ [2346, 2381, 2352, 2357, 2366, 2361]
     @ asc '' / Flux de tr'' @ [233]
     @ asc ''sorerie / Flujo de efectivo - Movement of money in and out ''
     @ asc ''of business''"

definition text_ROI :: pystr where
  "text_ROI =
     [2344, 2367, 2357, 2375, 2358] @ asc '' '' @ [2346, 2381, 2352, 2340, 2367, 2347, 2354]
     @ asc '' / Retour sur investissement / Retorno de inversi'' @ [243]
     @ asc ''n - Return on Investment percentage''"

definition text_IPO :: pystr where
  "text_IPO =
     [2346, 2381, 2352, 2366, 2352, 2306, 2349, 2367, 2325] @ asc '' ''
     @ [2360, 2366, 2352, 2381, 2357, 2332, 2344, 2367, 2325] @ asc '' ''
     @ [2344, 2367, 2352, 2381, 2327, 2350] @ asc '' / Offre publique initiale / Oferta p''
     @ [250] @ asc ''blica inicial - Initial Public Offering''"

definition text_Capital_Gains :: pystr where
  "text_Capital_Gains =
     [2346, 2370, 2306, 2332, 2368] @ asc '' '' @ [2354, 2366, 2349]
     @ asc '' / Gains en capital / Ganancias de capital - Profit from ''
     @ asc ''selling an asset''"

definition text_Equity :: pystr where
  "text_Equity =
     [2360, 2381, 2357, 2366, 2350, 2367, 2340, 2381, 2357] @ asc '' ''
     @ [2346, 2370, 2306, 2332, 2368]
     @ asc '' / Capital-actions / Capital accionario - Ownership value ''
     @ asc ''in a company''"

definition text_Debt :: pystr where
  "text_Debt =
     [2315, 2339] @ asc '' / Dette / Deuda - Money owed to creditors''"

definition text_Portfolio :: pystr where
  "text_Portfolio =
     [2344, 2367, 2357, 2375, 2358] @ asc '' ''
     @ [2346, 2379, 2352, 2381, 2335, 2347, 2379, 2354, 2367, 2351, 2379]
     @ asc '' / Portefeuille / Portafolio - Collection of investments''"

definition text_Mutual_Fund :: pystr where
  "text_Mutual_Fund =
     [2350, 2381, 2351, 2370, 2330, 2369, 2309, 2354] @ asc '' '' @ [2347, 2306, 2337]
     @ asc '' / Fonds commun / Fondo mutuo - Pooled investment vehicle''"

definition text_Bond :: pystr where
  "text_Bond =
     [2348, 2366, 2306, 2337] @ asc '' / Obligation / Bono - Fixed-income debt security''"

definition text_Stock :: pystr where
  "text_Stock =
     [2358, 2375, 2351, 2352] @ asc '' / Action / Acci'' @ [243]
     @ asc ''n - Share of ownership in a company''"

definition text_Interest_Rate :: pystr where
  "text_Interest_Rate =
     [2348, 2381, 2351, 2366, 2332] @ asc '' '' @ [2342, 2352] @ asc '' / Taux d'' @ [39]
     @ asc ''int'' @ [233] @ asc ''r'' @ [234] @ asc ''t / Tasa de inter'' @ [233]
     @ asc ''s - Cost of borrowing money''"

definition text_Inflation :: pystr where
  "text_Inflation =
     [2350, 2369, 2342, 2381, 2352, 2366, 2360, 2381, 2347, 2368, 2340, 2367]
     @ asc '' / Inflation / Inflaci'' @ [243] @ asc ''n - Rate of price increase over time''"

definition text_GDP :: pystr where
  "text_GDP =
     [2360, 2325, 2354] @ asc '' '' @ [2328, 2352, 2375, 2354, 2370] @ asc '' ''
     @ [2313, 2340, 2381, 2346, 2366, 2342] @ asc '' / PIB / PIB - Gross Domestic Product''"

definition text_Market_Cap :: pystr where
  "text_Market_Cap =
     [2348, 2366, 2332, 2366, 2352] @ asc '' ''
     @ [2346, 2370, 2306, 2332, 2368, 2325, 2352, 2339] @ asc '' / Capitalisation boursi''
     @ [232] @ asc ''re / Capitalizaci'' @ [243] @ asc ''n burs'' @ [225]
     @ asc ''til - Total market value of shares''"

definition text_Bull_Market :: pystr where
  "text_Bull_Market =
     [2340, 2375, 2332, 2368] @ asc '' '' @ [2348, 2366, 2332, 2366, 2352]
     @ asc '' / March'' @ [233] @ asc '' haussier / Mercado alcista - Rising market trend''"

definition text_Bear_Market :: pystr where
  "text_Bear_Market =
     [2350, 2306, 2342, 2368] @ asc '' '' @ [2348, 2366, 2332, 2366, 2352]
     @ asc '' / March'' @ [233] @ asc '' baissier / Mercado bajista - Falling market trend''"

definition text_Hedge_Fund :: pystr where
  "text_Hedge_Fund =
     [2361, 2375, 2332] @ asc '' '' @ [2347, 2306, 2337] @ asc '' / Fonds sp'' @ [233]
     @ asc ''culatif / Fondo de cobertura - Alternative investment fund''"

definition text_Credit_Rating :: pystr where
  "text_Credit_Rating =
     [2315, 2339] @ asc '' '' @ [2352, 2375, 2335, 2367, 2306, 2327]
     @ asc '' / Notation de cr'' @ [233] @ asc ''dit / Calificaci'' @ [243]
     @ asc ''n crediticia - Assessment of creditworthiness''"

definition FINANCE_TERMS :: "(pystr \<times> pystr) list" where
  "FINANCE_TERMS =
     [(asc ''Balance Sheet'', text_Balance_Sheet),
      (asc ''Net Profit'', text_Net_Profit),
      (asc ''Assets'', text_Assets),
      (asc ''Liabilities'', text_Liabilities),
      (asc ''Revenue'', text_Revenue),
      (asc ''Depreciation'', text_Depreciation),
      (asc ''Dividend'', text_Dividend),
      (asc ''Cash Flow'', text_Cash_Flow),
      (asc ''ROI'', text_ROI),
      (asc ''IPO'', text_IPO),
      (asc ''Capital Gains'', text_Capital_Gains),
      (asc ''Equity'', text_Equity),
      (asc ''Debt'', text_Debt),
      (asc ''Portfolio'', text_Portfolio),
      (asc ''Mutual Fund'', text_Mutual_Fund),
      (asc ''Bond'', text_Bond),
      (asc ''Stock'', text_Stock),
      (asc ''Interest Rate'', text_Interest_Rate),
      (asc ''Inflation'', text_Inflation),
      (asc ''GDP'', text_GDP),
      (asc ''Market Cap'', text_Market_Cap),
      (asc ''Bull Market'', text_Bull_Market),
      (asc ''Bear Market'', text_Bear_Market),
      (asc ''Hedge Fund'', text_Hedge_Fund),
      (asc ''Credit Rating'', text_Credit_Rating)]"

text \<open>\<open>FINANCE_TERMS[term]\<close>.\<close>

definition term_entry :: "pystr \<Rightarrow> py_exn + (pystr \<times> pystr)" where
  "term_entry term =
     (case map_of FINANCE_TERMS term of
        None \<Rightarrow> Inl (Exn KeyError ([39] @ term @ [39]))
      | Some d \<Rightarrow> Inr (term, d))"

fun term_entries :: "pystr list \<Rightarrow> py_exn + (pystr \<times> pystr) list" where
  "term_entries [] = Inr []"
| "term_entries (t # ts) =
     (case term_entry t of
        Inl e \<Rightarrow> Inl e
      | Inr x \<Rightarrow>
          (case term_entries ts of
             Inl e \<Rightarrow> Inl e
           | Inr xs \<Rightarrow> Inr (x # xs)))"

text \<open>
  What the search shows: nothing (no search was made), the one term found, the number
  of terms that match with the entries displayed and the number left out, or the
  "not found" box.
\<close>

datatype glossary_view =
    No_search
  | Exact_match pystr pystr
  | Partial_matches nat "(pystr \<times> pystr) list" "nat option"
  | Term_not_found

definition glossary_search :: "world \<Rightarrow> pystr \<Rightarrow> bool \<Rightarrow> py_exn + glossary_view" where
  "glossary_search w search_term search_button =
     (if search_term \<noteq> [] \<or> search_button
      then (let search_term_clean = py_strip search_term
            in case map_of FINANCE_TERMS search_term_clean of
                 Some d \<Rightarrow> Inr (Exact_match search_term_clean d)
               | None \<Rightarrow>
                   (let matches =
                          filter
                            (\<lambda>term. py_contains (py_lower w search_term_clean)
                                      (py_lower w term))
                            (map fst FINANCE_TERMS)
                    in if matches \<noteq> []
                       then (case term_entries (take 5 matches) of
                               Inl e \<Rightarrow> Inl e
                             | Inr shown \<Rightarrow>
                                 Inr (Partial_matches (length matches) shown
                                        (if 5 < length matches
                                         then Some (length matches - 5)
                                         else None)))
                       else Inr Term_not_found))
      else Inr No_search)"

section \<open>Reference definitions and example inputs\<close>

text \<open>The clamp of the specification: \<open>x\<close> brought into \<open>[lo, hi]\<close>.\<close>

definition spec_clamp :: "int \<Rightarrow> int \<Rightarrow> int \<Rightarrow> int" where
  "spec_clamp x lo hi = (if x < lo then lo else if hi < x then hi else x)"

text \<open>
  A world for examples: the model answers every prompt in the same way and every text
  has the same polarity.
\<close>

definition fixed_world :: "(py_exn + pystr) \<Rightarrow> real \<Rightarrow> world" where
  "fixed_world reply p =
     \<lparr>generate_content = (\<lambda>prompt. reply), polarity = (\<lambda>content. p),
      int_other = (\<lambda>s. Inl invalid_literal), lower_other = (\<lambda>s. s),
      format_other = (\<lambda>v. [])\<rparr>"

text \<open>
  The alert parser as the specification words it, for a given way of stripping a
  segment: a line that is blank or has no em dash gives nothing; otherwise the line is
  split on the em dash, every segment is stripped, and the first four segments make one
  record when there are at least four.
\<close>

definition spec_alert_of_line :: "(pystr \<Rightarrow> pystr) \<Rightarrow> pystr \<Rightarrow> alert option" where
  "spec_alert_of_line strip line =
     (if list_all py_isspace line \<or> em_dash \<notin> set line then None
      else (case map strip (py_split em_dash line) of
              h # s # i # m # excess \<Rightarrow>
                Some \<lparr>a_headline = h, a_stock = s, a_impact = i, a_summary = m\<rparr>
            | _ \<Rightarrow> None))"

definition spec_parse_alerts :: "(pystr \<Rightarrow> pystr) \<Rightarrow> pystr list \<Rightarrow> alert list" where
  "spec_parse_alerts strip lines = List.map_filter (spec_alert_of_line strip) lines"

text \<open>Stripping whitespace, hyphens, asterisks and em dashes, as the claim has it.\<close>

definition strip_whitespace_and_marks :: "pystr \<Rightarrow> pystr" where
  "strip_whitespace_and_marks s =
     strip_where (\<lambda>c. py_isspace c \<or> c = 45 \<or> c = 42 \<or> c = em_dash) s"

text \<open>Stripping the space character, hyphens, asterisks and em dashes.\<close>

definition strip_space_and_marks :: "pystr \<Rightarrow> pystr" where
  "strip_space_and_marks s =
     strip_where (\<lambda>c. c = 32 \<or> c = 45 \<or> c = 42 \<or> c = em_dash) s"

definition fed_line :: pystr where
  "fed_line =
     asc ''Fed raises rates '' @ [em_dash] @ asc '' Banking '' @ [em_dash]
     @ asc '' Negative '' @ [em_dash] @ asc '' Higher rates squeeze margins''"

text \<open>A line of a response whose lines end in carriage return and line feed.\<close>

definition crlf_line :: pystr where
  "crlf_line =
     asc ''Oil up '' @ [em_dash] @ asc '' Energy '' @ [em_dash] @ asc '' Positive ''
     @ [em_dash] @ asc '' Margins widen'' @ [13]"

text \<open>
  The records a session has added to the lists it started from.
\<close>

definition new_blogs :: "app_state \<Rightarrow> app_state \<Rightarrow> blog list" where
  "new_blogs s0 st = drop (length (blogs s0)) (blogs st)"

definition new_summaries :: "app_state \<Rightarrow> app_state \<Rightarrow> summary list" where
  "new_summaries s0 st = drop (length (summaries s0)) (summaries st)"

text \<open>
  A serialisation for the examples. A string is written as its length and its code
  points, an integer as a sign and a magnitude, a record as its fields in order, a list
  as its length and its records. Reading fails on bytes that are not of that form.
\<close>

definition put_str :: "pystr \<Rightarrow> bytes" where
  "put_str s = length s # s"

fun get_str :: "bytes \<Rightarrow> (pystr \<times> bytes) option" where
  "get_str [] = None"
| "get_str (n # r) = (if n \<le> length r then Some (take n r, drop n r) else None)"

definition put_int :: "int \<Rightarrow> bytes" where
  "put_int i = [if i < 0 then 1 else 0, nat \<bar>i\<bar>]"

fun get_int :: "bytes \<Rightarrow> (int \<times> bytes) option" where
  "get_int (s # a # r) = Some (if s = 1 then - int a else int a, r)"
| "get_int r = None"

definition put_blog :: "blog \<Rightarrow> bytes" where
  "put_blog b =
     put_int (b_id b) @ put_str (b_user_name b) @ put_str (b_title b)
     @ put_str (b_content b) @ put_str (b_tag b) @ [b_time b]
     @ put_int (b_likes b) @ put_int (b_comments b) @ put_int (b_rating b)"

definition get_blog :: "bytes \<Rightarrow> (blog \<times> bytes) option" where
  "get_blog r0 =
     (case get_int r0 of None \<Rightarrow> None | Some (i, r1) \<Rightarrow>
      (case get_str r1 of None \<Rightarrow> None | Some (u, r2) \<Rightarrow>
       (case get_str r2 of None \<Rightarrow> None | Some (t, r3) \<Rightarrow>
        (case get_str r3 of None \<Rightarrow> None | Some (c, r4) \<Rightarrow>
         (case get_str r4 of None \<Rightarrow> None | Some (g, r5) \<Rightarrow>
          (case r5 of [] \<Rightarrow> None | time # r6 \<Rightarrow>
           (case get_int r6 of None \<Rightarrow> None | Some (l, r7) \<Rightarrow>
            (case get_int r7 of None \<Rightarrow> None | Some (m, r8) \<Rightarrow>
             (case get_int r8 of None \<Rightarrow> None | Some (r, r9) \<Rightarrow>
                Some (\<lparr>b_id = i, b_user_name = u, b_title = t, b_content = c, b_tag = g,
                       b_time = time, b_likes = l, b_comments = m, b_rating = r\<rparr>,
                      r9))))))))))"

primrec get_blogs :: "nat \<Rightarrow> bytes \<Rightarrow> blog list option" where
  "get_blogs 0 r = (if r = [] then Some [] else None)"
| "get_blogs (Suc n) r =
     (case get_blog r of None \<Rightarrow> None | Some (b, r') \<Rightarrow>
      (case get_blogs n r' of None \<Rightarrow> None | Some bs \<Rightarrow> Some (b # bs)))"

definition put_summary :: "summary \<Rightarrow> bytes" where
  "put_summary s =
     put_int (s_id s) @ put_str (s_title s) @ put_str (s_type s) @ put_str (s_content s)
     @ put_str (s_summary s) @ [s_timestamp s]"

definition get_summary :: "bytes \<Rightarrow> (summary \<times> bytes) option" where
  "get_summary r0 =
     (case get_int r0 of None \<Rightarrow> None | Some (i, r1) \<Rightarrow>
      (case get_str r1 of None \<Rightarrow> None | Some (t, r2) \<Rightarrow>
       (case get_str r2 of None \<Rightarrow> None | Some (y, r3) \<Rightarrow>
        (case get_str r3 of None \<Rightarrow> None | Some (c, r4) \<Rightarrow>
         (case get_str r4 of None \<Rightarrow> None | Some (s, r5) \<Rightarrow>
          (case r5 of [] \<Rightarrow> None | time # r6 \<Rightarrow>
             Some (\<lparr>s_id = i, s_title = t, s_type = y, s_content = c, s_summary = s,
                    s_timestamp = time\<rparr>,
                   r6)))))))"

primrec get_summaries :: "nat \<Rightarrow> bytes \<Rightarrow> summary list option" where
  "get_summaries 0 r = (if r = [] then Some [] else None)"
| "get_summaries (Suc n) r =
     (case get_summary r of None \<Rightarrow> None | Some (s, r') \<Rightarrow>
      (case get_summaries n r' of None \<Rightarrow> None | Some ss \<Rightarrow> Some (s # ss)))"

definition unpickling_error :: py_exn where
  "unpickling_error = Exn OtherException (asc ''pickle data was truncated'')"

definition example_pickle :: pickle where
  "example_pickle =
     \<lparr>dump_blogs = (\<lambda>bs. length bs # concat (map put_blog bs)),
      undump_blogs =
        (\<lambda>bytes. case bytes of
                    [] \<Rightarrow> Inl unpickling_error
                  | n # r \<Rightarrow> (case get_blogs n r of
                                None \<Rightarrow> Inl unpickling_error
                              | Some bs \<Rightarrow> Inr bs)),
      dump_summaries = (\<lambda>ss. length ss # concat (map put_summary ss)),
      undump_summaries =
        (\<lambda>bytes. case bytes of
                    [] \<Rightarrow> Inl unpickling_error
                  | n # r \<Rightarrow> (case get_summaries n r of
                                None \<Rightarrow> Inl unpickling_error
                              | Some ss \<Rightarrow> Inr ss))\<rparr>"

text \<open>Records, a storage directory and submissions for the examples.\<close>

definition example_blog :: blog where
  "example_blog =
     \<lparr>b_id = 1, b_user_name = asc ''asha'', b_title = asc ''SIP'',
      b_content = asc ''Start early.'', b_tag = asc ''Investing'', b_time = 7,
      b_likes = 0, b_comments = 0, b_rating = 4\<rparr>"

definition example_summary :: summary where
  "example_summary =
     \<lparr>s_id = 1, s_title = asc ''Q1'', s_type = asc ''General'',
      s_content = asc ''Revenue rose.'', s_summary = asc ''Up.'', s_timestamp = 9\<rparr>"

definition empty_disk :: files where
  "empty_disk = \<lparr>blogs_pkl = None, summaries_pkl = None\<rparr>"

definition stocked_disk :: files where
  "stocked_disk =
     \<lparr>blogs_pkl = Some (dump_blogs example_pickle [example_blog]),
      summaries_pkl = None\<rparr>"

definition stocked_state :: app_state where
  "stocked_state =
     \<lparr>blogs = [example_blog], blog_counter = 2, summaries = [], summary_counter = 1,
      disk = stocked_disk\<rparr>"

definition long_content :: pystr where
  "long_content =
     asc ''Index funds spread a small monthly sum over the whole market, ''
     @ asc ''so costs stay low and no single company can sink the portfolio.''"

definition good_form :: blog_form where
  "good_form =
     \<lparr>f_user_name = asc ''ravi'', f_title = asc ''Index funds'',
      f_content = long_content, f_tag = []\<rparr>"

definition short_form :: blog_form where
  "short_form =
     \<lparr>f_user_name = asc ''ravi'', f_title = asc ''Index funds'',
      f_content = asc ''Buy index funds.'', f_tag = asc ''Investing''\<rparr>"

definition untitled_form :: blog_form where
  "untitled_form =
     \<lparr>f_user_name = asc ''ravi'', f_title = [], f_content = long_content, f_tag = []\<rparr>"

definition good_document :: summary_form where
  "good_document = \<lparr>d_title = [], d_type = Balance_Sheet, d_content = long_content\<rparr>"

definition short_document :: summary_form where
  "short_document =
     \<lparr>d_title = asc ''Note'', d_type = General, d_content = asc ''Cash 10, debt 4.''\<rparr>"

definition example_session :: "event list" where
  "example_session =
     [Publish_blog (fixed_world (Inr (asc ''7'')) 0) 10 good_form,
      Publish_blog (fixed_world (Inr (asc ''5'')) 0) 11 short_form,
      Generate_summary (fixed_world (Inr (asc ''Sound.'')) 0) 12 good_document,
      Publish_blog (fixed_world (Inr (asc ''five'')) (- 0.7)) 13 good_form,
      Generate_summary (fixed_world (Inr (asc ''Sound.'')) 0) 14 short_document]"

section \<open>Properties\<close>

subsection \<open>Rounding a quotient by 5\<close>

lemma py_round_split:
  fixes q r :: int
  assumes "0 \<le> r" and "r < 5"
  shows "py_round (of_int q + of_int r / 5) = (if r \<le> 2 then q else q + 1)"
proof -
  let ?x = "of_int q + of_int r / (5::real)"
  have r0: "0 \<le> (of_int r :: real)" and r5: "(of_int r :: real) < 5"
    using assms by simp_all
  have fl: "\<lfloor>?x\<rfloor> = q"
  proof (rule floor_unique)
    show "of_int q \<le> ?x" using r0 by simp
    show "?x < of_int q + 1" using r5 by simp
  qed
  have d: "?x - of_int q = of_int r / 5" by simp
  show ?thesis
  proof (cases "r \<le> 2")
    case True
    then have "(of_int r :: real) \<le> 2" by simp
    then have "of_int r / (5::real) < 1 / 2" by simp
    then show ?thesis using True by (simp only: py_round_def Let_def fl d if_True)
  next
    case False
    then have "3 \<le> r" by simp
    then have "(3::real) \<le> of_int r" by (metis of_int_le_iff of_int_numeral)
    then have gt: "1 / 2 < of_int r / (5::real)" by simp
    then have ng: "\<not> of_int r / (5::real) < 1 / 2" by simp
    show ?thesis using False gt ng by (simp only: py_round_def Let_def fl d if_True if_False)
  qed
qed

lemma py_round_fifths: "py_round (of_int k / 5) = (2 * k + 5) div 10"
proof -
  define q where "q = k div 5"
  define r where "r = k mod 5"
  have k: "k = 5 * q + r" by (simp add: q_def r_def)
  have r: "0 \<le> r" "r < 5" by (simp_all add: r_def)
  have e: "(of_int k :: real) / 5 = of_int q + of_int r / 5" by (simp add: k)
  have "py_round (of_int k / 5) = py_round (of_int q + of_int r / 5)" by (simp only: e)
  also have "\<dots> = (if r \<le> 2 then q else q + 1)" by (rule py_round_split[OF r])
  also have "\<dots> = (2 * k + 5) div 10" using r unfolding k by presburger
  finally show ?thesis .
qed

lemma round_fifths: "round (of_int k / (5::real)) = (2 * k + 5) div 10"
proof -
  have "of_int k / (5::real) + 1 / 2 = of_int (2 * k + 5) / 10" by simp
  then have "\<lfloor>of_int k / (5::real) + 1 / 2\<rfloor> = \<lfloor>of_int (2 * k + 5) / (10::real)\<rfloor>"
    by (rule arg_cong)
  also have "\<dots> = (2 * k + 5) div 10"
    by (metis floor_divide_of_int_eq of_int_numeral)
  finally show ?thesis by (simp only: round_def)
qed

subsection \<open>The rating functions\<close>

lemma double_limit_large: "2 ^ 64 \<le> double_limit"
proof -
  have "(2::real) ^ 970 * 2 \<le> 2 ^ 970 * 2 ^ 54" by (intro mult_left_mono) simp_all
  then have "(2::real) ^ 970 + 2 ^ 970 \<le> 2 ^ 1024" by (simp add: power_add[symmetric])
  moreover have "(2::real) ^ 64 \<le> 2 ^ 970" by (rule power_increasing) simp_all
  ultimately show ?thesis unfolding double_limit_def by linarith
qed

lemma py_truediv_5: 
  assumes "\<bar>a\<bar> \<le> 100"
  shows "py_truediv a 5 = Inr (of_int a / 5)"
proof -
  have "\<bar>of_int a :: real\<bar> \<le> 100" using assms by linarith
  then have "\<bar>of_int a / (5::real)\<bar> \<le> 20" by simp
  moreover have "(20::real) < 2 ^ 64" by simp
  ultimately have "\<not> double_limit \<le> \<bar>of_int a / (5::real)\<bar>"
    using double_limit_large by linarith
  then show ?thesis by (simp add: py_truediv_def)
qed

lemma rate_with_textblob_range: "1 \<le> rate_with_textblob w c \<and> rate_with_textblob w c \<le> 5"
  by (simp add: rate_with_textblob_def Let_def)

lemma rate_blog_present:
  assumes "rate_with_gemini w content = Inr (Some m)" and "1 \<le> m" and "m \<le> 5"
  shows "rate_blog w content
           = Inr (max 1 (min 5 ((2 * (m * 4 + rate_with_textblob w content) + 5) div 10)))"
proof -
  let ?b = "rate_with_textblob w content"
  have "\<bar>m * 4 + ?b\<bar> \<le> 100" using assms rate_with_textblob_range[of w content] by simp
  then have "py_truediv (m * 4 + ?b) 5 = Inr (of_int (m * 4 + ?b) / 5)" by (rule py_truediv_5)
  moreover have "m \<noteq> 0" using assms by simp
  ultimately show ?thesis using assms(1)
    by (simp add: rate_blog_def Let_def py_round_fifths del: of_int_add of_int_mult)
qed

lemma rate_blog_absent:
  assumes "rate_with_gemini w content = Inr None \<or> rate_with_gemini w content = Inr (Some 0)"
  shows "rate_blog w content = Inr (rate_with_textblob w content)"
  using assms by (auto simp: rate_blog_def Let_def)

lemma clamp_max_min: "max 1 (min 5 x) = spec_clamp x 1 5"
  by (simp add: spec_clamp_def)

text \<open>
  C1. With a model rating \<open>m\<close> in \<open>[1, 5]\<close> and the heuristic rating \<open>b\<close> (always in
  \<open>[1, 5]\<close>), \<open>rate_blog\<close> returns \<open>round((4m + b) / 5)\<close> clamped to \<open>[1, 5]\<close>;
  with the model rating absent (\<open>None\<close>, or 0, which the test treats alike) it returns
  the heuristic rating itself.
\<close>

theorem rate_blog_weighted:
  "(rate_with_gemini w content = Inr (Some m) \<and> 1 \<le> m \<and> m \<le> 5 \<longrightarrow>
      rate_blog w content
        = Inr (spec_clamp
                 (round ((4 * of_int m + of_int (rate_with_textblob w content)) / (5::real)))
                 1 5))
   \<and> (rate_with_gemini w content = Inr None \<longrightarrow>
        rate_blog w content = Inr (rate_with_textblob w content))
   \<and> (rate_with_gemini w content = Inr (Some 0) \<longrightarrow>
        rate_blog w content = Inr (rate_with_textblob w content))
   \<and> 1 \<le> rate_with_textblob w content \<and> rate_with_textblob w content \<le> 5"
proof -
  let ?b = "rate_with_textblob w content"
  have "(4 * of_int m + of_int ?b) / (5::real) = of_int (m * 4 + ?b) / 5" by simp
  then have "round ((4 * of_int m + of_int ?b) / (5::real)) = (2 * (m * 4 + ?b) + 5) div 10"
    by (simp only: round_fifths)
  then show ?thesis
    using rate_blog_present[of w content m] rate_blog_absent[of w content]
      rate_with_textblob_range[of w content]
    by (simp add: clamp_max_min)
qed

lemma gemini_fixed_reply:
  "rate_with_gemini (fixed_world (Inr (asc ''5'')) p) c = Inr (Some 5)"
  "rate_with_gemini (fixed_world (Inr (asc ''1'')) p) c = Inr (Some 1)"
  "rate_with_gemini (fixed_world (Inr (asc ''7'')) p) c = Inr (Some 7)"
  by (simp_all add: rate_with_gemini_def fixed_world_def py_int_def py_strip_def strip_where_def
      asc_def py_isspace_def is_ascii_def ascii_literal_def unsigned_literal_def is_digit_def)

text \<open>The two examples of the specification: \<open>m = 5, b = 3\<close> and \<open>m = 1, b = 5\<close>.\<close>

theorem rate_blog_weighted_witness:
  "rate_blog (fixed_world (Inr (asc ''5'')) 0) [] = Inr 5
   \<and> rate_blog (fixed_world (Inr (asc ''1'')) 0.9) [] = Inr 2"
proof -
  have b3: "rate_with_textblob (fixed_world (Inr (asc ''5'')) 0) [] = 3"
    by (simp add: rate_with_textblob_def fixed_world_def)
  have b5: "rate_with_textblob (fixed_world (Inr (asc ''1'')) 0.9) [] = 5"
    by (simp add: rate_with_textblob_def fixed_world_def)
  have r1: "round ((4 * of_int 5 + of_int 3) / (5::real)) = 5"
    using round_fifths[of 23] by simp
  have r2: "round ((4 * of_int 1 + of_int 5) / (5::real)) = 2"
    using round_fifths[of 9] by simp
  show ?thesis
    using rate_blog_weighted[of "fixed_world (Inr (asc ''5'')) 0" "[]" 5]
      rate_blog_weighted[of "fixed_world (Inr (asc ''1'')) 0.9" "[]" 1]
    by (simp only: gemini_fixed_reply b3 b5 r1 r2 spec_clamp_def) simp
qed

text \<open>
  C2. The sentiment score depends on the text through its polarity alone: at most
  \<open>-0.6\<close> gives 1, above \<open>-0.6\<close> and at most \<open>-0.2\<close> gives 2, above \<open>-0.2\<close> and
  at most \<open>0.2\<close> gives 3, above \<open>0.2\<close> and at most \<open>0.6\<close> gives 4, anything above
  gives 5. The score is in \<open>[1, 5]\<close>, it does not decrease when the polarity grows, and
  the four thresholds themselves give 1, 2, 3 and 4.
\<close>

theorem rate_with_textblob_bands:
  "(polarity w c \<le> - 0.6 \<longrightarrow> rate_with_textblob w c = 1)
   \<and> (- 0.6 < polarity w c \<and> polarity w c \<le> - 0.2 \<longrightarrow> rate_with_textblob w c = 2)
   \<and> (- 0.2 < polarity w c \<and> polarity w c \<le> 0.2 \<longrightarrow> rate_with_textblob w c = 3)
   \<and> (0.2 < polarity w c \<and> polarity w c \<le> 0.6 \<longrightarrow> rate_with_textblob w c = 4)
   \<and> (0.6 < polarity w c \<longrightarrow> rate_with_textblob w c = 5)
   \<and> 1 \<le> rate_with_textblob w c \<and> rate_with_textblob w c \<le> 5
   \<and> (polarity w c \<le> polarity w' c' \<longrightarrow> rate_with_textblob w c \<le> rate_with_textblob w' c')
   \<and> (polarity w c = polarity w' c' \<longrightarrow> rate_with_textblob w c = rate_with_textblob w' c')
   \<and> (polarity w c = - 0.6 \<longrightarrow> rate_with_textblob w c = 1)
   \<and> (polarity w c = - 0.2 \<longrightarrow> rate_with_textblob w c = 2)
   \<and> (polarity w c = 0.2 \<longrightarrow> rate_with_textblob w c = 3)
   \<and> (polarity w c = 0.6 \<longrightarrow> rate_with_textblob w c = 4)"
  by (simp add: rate_with_textblob_def Let_def)

lemma polarity_fixed_world: "polarity (fixed_world r p) c = p"
  by (simp add: fixed_world_def)

theorem rate_with_textblob_bands_witness:
  "rate_with_textblob (fixed_world (Inr []) (- 0.6)) [] = 1
   \<and> rate_with_textblob (fixed_world (Inr []) (- 0.2)) [] = 2
   \<and> rate_with_textblob (fixed_world (Inr []) 0.2) [] = 3
   \<and> rate_with_textblob (fixed_world (Inr []) 0.6) [] = 4
   \<and> rate_with_textblob (fixed_world (Inr []) 0.61) [] = 5
   \<and> rate_with_textblob (fixed_world (Inr []) (- 1)) []
       \<le> rate_with_textblob (fixed_world (Inr []) 1) []"
  using rate_with_textblob_bands[of "fixed_world (Inr []) (- 0.6)" "[]"]
    rate_with_textblob_bands[of "fixed_world (Inr []) (- 0.2)" "[]"]
    rate_with_textblob_bands[of "fixed_world (Inr []) 0.2" "[]"]
    rate_with_textblob_bands[of "fixed_world (Inr []) 0.6" "[]"]
    rate_with_textblob_bands[of "fixed_world (Inr []) 0.61" "[]"]
    rate_with_textblob_bands[of "fixed_world (Inr []) (- 1)" "[]" "fixed_world (Inr []) 1" "[]"]
  by (simp add: polarity_fixed_world)

text \<open>
  C4, as stated, fails: the integer returned is whatever the model wrote, also outside
  \<open>[1, 5]\<close>. When the model answers \<open>7\<close>, the client returns 7.
\<close>

theorem rate_with_gemini_out_of_range:
  "rate_with_gemini (fixed_world (Inr (asc ''7'')) 0) [] = Inr (Some 7)
   \<and> \<not> ((1::int) \<le> 7 \<and> (7::int) \<le> 5)"
  by (simp add: gemini_fixed_reply)

text \<open>
  C4, amended. The client never raises. It returns the trimmed answer of the model read
  as an integer, whatever its value, and \<open>None\<close> in every other case: when the call
  to the model raises and when the answer is not an integer literal.
\<close>

theorem rate_with_gemini_sentinel:
  "(\<exists>r. rate_with_gemini w c = Inr r)
   \<and> (\<forall>e. generate_content w (rating_prompt c) = Inl e \<longrightarrow> rate_with_gemini w c = Inr None)
   \<and> (\<forall>text e. generate_content w (rating_prompt c) = Inr text
                \<and> py_int w (py_strip text) = Inl e \<longrightarrow> rate_with_gemini w c = Inr None)
   \<and> (\<forall>text n. generate_content w (rating_prompt c) = Inr text
                \<and> py_int w (py_strip text) = Inr n \<longrightarrow> rate_with_gemini w c = Inr (Some n))"
  by (auto simp: rate_with_gemini_def split: sum.splits)

lemma py_int_examples:
  "py_int w (py_strip (asc ''five'')) = Inl invalid_literal"
  "py_int w (py_strip (asc '' 4 '' @ [newline])) = Inr 4"
  "py_int w (py_strip (asc ''-3'')) = Inr (- 3)"
  by (simp_all add: py_int_def py_strip_def strip_where_def newline_def
      asc_def py_isspace_def is_ascii_def ascii_literal_def unsigned_literal_def is_digit_def)

theorem rate_with_gemini_sentinel_witness:
  "rate_with_gemini (fixed_world (Inl (Exn Timeout (asc ''timed out''))) 0) [] = Inr None
   \<and> rate_with_gemini (fixed_world (Inr (asc ''five'')) 0) [] = Inr None
   \<and> rate_with_gemini (fixed_world (Inr (asc '' 4 '' @ [newline])) 0) [] = Inr (Some 4)
   \<and> rate_with_gemini (fixed_world (Inr (asc ''-3'')) 0) [] = Inr (Some (- 3))"
  using rate_with_gemini_sentinel[of "fixed_world (Inl (Exn Timeout (asc ''timed out''))) 0" "[]"]
    rate_with_gemini_sentinel[of "fixed_world (Inr (asc ''five'')) 0" "[]"]
    rate_with_gemini_sentinel[of "fixed_world (Inr (asc '' 4 '' @ [newline])) 0" "[]"]
    rate_with_gemini_sentinel[of "fixed_world (Inr (asc ''-3'')) 0" "[]"]
  by (simp add: fixed_world_def py_int_examples)

subsection \<open>Parsing the alerts\<close>

lemma strip_where_Nil_iff: "strip_where P s = [] \<longleftrightarrow> list_all P s"
proof
  assume "strip_where P s = []"
  then have d: "dropWhile P (rev (dropWhile P s)) = []" by (simp add: strip_where_def)
  show "list_all P s"
  proof (cases "dropWhile P s")
    case Nil
    then show ?thesis by (simp add: dropWhile_eq_Nil_conv list_all_iff)
  next
    case (Cons x xs)
    then have "\<not> P x" using hd_dropWhile[of P s] by simp
    moreover have "x \<in> set (rev (dropWhile P s))" using Cons by simp
    moreover have "\<forall>y\<in>set (rev (dropWhile P s)). P y"
      using d by (simp only: dropWhile_eq_Nil_conv)
    ultimately show ?thesis by blast
  qed
next
  assume "list_all P s"
  then have e: "dropWhile P s = []" by (simp add: dropWhile_eq_Nil_conv list_all_iff)
  show "strip_where P s = []"
    by (simp only: strip_where_def e rev.simps dropWhile.simps)
qed

lemma starts_with_single: "starts_with [c] s \<longleftrightarrow> (s \<noteq> [] \<and> hd s = c)"
  by (cases s) auto

lemma py_contains_single: "py_contains [c] s \<longleftrightarrow> c \<in> set s"
  by (induction s) (auto simp: starts_with_single)

lemma alert_strip_chars_eq: "py_strip_chars alert_strip_chars = strip_space_and_marks"
  by (rule ext) (simp add: py_strip_chars_def alert_strip_chars_def strip_space_and_marks_def
      disj_commute eq_commute)

lemma first_four:
  "4 \<le> length parts \<Longrightarrow>
   (case parts of h # s # i # m # excess \<Rightarrow>
      Some \<lparr>a_headline = h, a_stock = s, a_impact = i, a_summary = m\<rparr> | _ \<Rightarrow> None)
   = Some \<lparr>a_headline = parts ! 0, a_stock = parts ! 1, a_impact = parts ! 2,
           a_summary = parts ! 3\<rparr>"
  by (auto split: list.splits)

lemma fewer_than_four:
  "\<not> 4 \<le> length parts \<Longrightarrow>
   (case parts of h # s # i # m # excess \<Rightarrow>
      Some \<lparr>a_headline = h, a_stock = s, a_impact = i, a_summary = m\<rparr> | _ \<Rightarrow> None)
   = None"
  by (auto split: list.splits)

lemma parse_alerts_loop_eq:
  "parse_alerts_loop alerts lines
     = alerts @ spec_parse_alerts (py_strip_chars alert_strip_chars) lines"
proof (induction lines arbitrary: alerts)
  case Nil
  then show ?case by (simp add: spec_parse_alerts_def map_filter_simps)
next
  case (Cons line rest)
  let ?parts = "map (py_strip_chars alert_strip_chars) (py_split em_dash line)"
  show ?case
  proof (cases "py_strip line = [] \<or> \<not> py_contains [em_dash] line")
    case True
    then have "spec_alert_of_line (py_strip_chars alert_strip_chars) line = None"
      by (auto simp: spec_alert_of_line_def py_strip_def strip_where_Nil_iff py_contains_single)
    then show ?thesis using True Cons.IH[of alerts]
      by (simp add: spec_parse_alerts_def map_filter_simps)
  next
    case False
    then have nb: "\<not> list_all py_isspace line" and d: "em_dash \<in> set line"
      by (auto simp: py_strip_def strip_where_Nil_iff py_contains_single)
    show ?thesis
    proof (cases "4 \<le> length ?parts")
      case True
      have "spec_alert_of_line (py_strip_chars alert_strip_chars) line
              = Some \<lparr>a_headline = ?parts ! 0, a_stock = ?parts ! 1, a_impact = ?parts ! 2,
                       a_summary = ?parts ! 3\<rparr>"
        using nb d first_four[OF True] by (simp add: spec_alert_of_line_def)
      then show ?thesis using False True Cons.IH
        by (simp add: spec_parse_alerts_def map_filter_simps Let_def)
    next
      case F: False
      have "spec_alert_of_line (py_strip_chars alert_strip_chars) line = None"
        using nb d fewer_than_four[OF F] by (simp add: spec_alert_of_line_def)
      then show ?thesis using False F Cons.IH
        by (simp add: spec_parse_alerts_def map_filter_simps Let_def)
    qed
  qed
qed

lemma spec_alert_of_line_four:
  assumes "\<not> list_all py_isspace line" and "em_dash \<in> set line"
    and "py_split em_dash line = [h, s, i, m]"
  shows "spec_alert_of_line strip line
           = Some \<lparr>a_headline = strip h, a_stock = strip s, a_impact = strip i,
                   a_summary = strip m\<rparr>"
  using assms by (simp add: spec_alert_of_line_def)

lemma fed_line_facts:
  "\<not> list_all py_isspace fed_line"
  "em_dash \<in> set fed_line"
  "py_split em_dash fed_line
     = [asc ''Fed raises rates '', asc '' Banking '', asc '' Negative '',
        asc '' Higher rates squeeze margins'']"
  by (simp_all add: fed_line_def asc_def em_dash_def py_isspace_def)

lemma fed_line_stripped:
  "strip_space_and_marks (asc ''Fed raises rates '') = asc ''Fed raises rates''"
  "strip_space_and_marks (asc '' Banking '') = asc ''Banking''"
  "strip_space_and_marks (asc '' Negative '') = asc ''Negative''"
  "strip_space_and_marks (asc '' Higher rates squeeze margins'')
     = asc ''Higher rates squeeze margins''"
  by (simp_all add: strip_space_and_marks_def strip_where_def asc_def em_dash_def)

lemma fed_line_alert:
  "spec_alert_of_line strip_space_and_marks fed_line
     = Some \<lparr>a_headline = asc ''Fed raises rates'', a_stock = asc ''Banking'',
             a_impact = asc ''Negative'', a_summary = asc ''Higher rates squeeze margins''\<rparr>"
  by (simp only: spec_alert_of_line_four[OF fed_line_facts] fed_line_stripped)

lemma no_alert_examples:
  "spec_alert_of_line strip []  = None"
  "spec_alert_of_line strip (asc ''no separator here'') = None"
  by (simp_all add: spec_alert_of_line_def asc_def em_dash_def)

lemma crlf_line_facts:
  "\<not> list_all py_isspace crlf_line"
  "em_dash \<in> set crlf_line"
  "py_split em_dash crlf_line
     = [asc ''Oil up '', asc '' Energy '', asc '' Positive '', asc '' Margins widen'' @ [13]]"
  by (simp_all add: crlf_line_def asc_def em_dash_def py_isspace_def)

lemma crlf_line_stripped:
  "strip_space_and_marks (asc ''Oil up '') = asc ''Oil up''"
  "strip_space_and_marks (asc '' Energy '') = asc ''Energy''"
  "strip_space_and_marks (asc '' Positive '') = asc ''Positive''"
  "strip_space_and_marks (asc '' Margins widen'' @ [13]) = asc ''Margins widen'' @ [13]"
  "strip_whitespace_and_marks (asc ''Oil up '') = asc ''Oil up''"
  "strip_whitespace_and_marks (asc '' Energy '') = asc ''Energy''"
  "strip_whitespace_and_marks (asc '' Positive '') = asc ''Positive''"
  "strip_whitespace_and_marks (asc '' Margins widen'' @ [13]) = asc ''Margins widen''"
  by (simp_all add: strip_space_and_marks_def strip_whitespace_and_marks_def strip_where_def
      asc_def em_dash_def py_isspace_def)

lemma parse_alerts_one_line:
  "parse_alerts [line]
     = (case spec_alert_of_line strip_space_and_marks line of None \<Rightarrow> [] | Some a \<Rightarrow> [a])"
  by (simp add: parse_alerts_def parse_alerts_loop_eq alert_strip_chars_eq spec_parse_alerts_def
      map_filter_simps split: option.split)

text \<open>
  C3, as stated, with every kind of whitespace stripped from the segments. The call
  \<open>p.strip(" -*\<emdash>")\<close> of the source names the space character only: a carriage return
  at the end of the last segment stays in the summary of the record, where the stated
  behaviour removes it.
\<close>

theorem parse_alerts_keeps_carriage_return:
  "parse_alerts [crlf_line]
     = [\<lparr>a_headline = asc ''Oil up'', a_stock = asc ''Energy'', a_impact = asc ''Positive'',
          a_summary = asc ''Margins widen'' @ [13]\<rparr>]
   \<and> spec_parse_alerts strip_whitespace_and_marks [crlf_line]
     = [\<lparr>a_headline = asc ''Oil up'', a_stock = asc ''Energy'', a_impact = asc ''Positive'',
          a_summary = asc ''Margins widen''\<rparr>]
   \<and> parse_alerts [crlf_line] \<noteq> spec_parse_alerts strip_whitespace_and_marks [crlf_line]"
proof -
  have a: "parse_alerts [crlf_line]
     = [\<lparr>a_headline = asc ''Oil up'', a_stock = asc ''Energy'', a_impact = asc ''Positive'',
          a_summary = asc ''Margins widen'' @ [13]\<rparr>]"
    by (simp add: parse_alerts_one_line spec_alert_of_line_four[OF crlf_line_facts]
        crlf_line_stripped)
  have b: "spec_parse_alerts strip_whitespace_and_marks [crlf_line]
     = [\<lparr>a_headline = asc ''Oil up'', a_stock = asc ''Energy'', a_impact = asc ''Positive'',
          a_summary = asc ''Margins widen''\<rparr>]"
    by (simp add: spec_parse_alerts_def map_filter_simps
        spec_alert_of_line_four[OF crlf_line_facts] crlf_line_stripped)
  show ?thesis unfolding a b by simp
qed

text \<open>
  C3, amended. \<open>parse_alerts\<close> keeps, in the order of the input, one record for each line
  that is not blank and contains an em dash and whose split on the em dash has at least
  four segments; the record holds the first four segments, each stripped of leading and
  trailing space characters (U+0020), hyphens, asterisks and em dashes. Every other line
  yields no record.
\<close>

theorem parse_alerts_refines:
  "parse_alerts lines = spec_parse_alerts strip_space_and_marks lines
   \<and> length (parse_alerts lines) \<le> length lines"
proof -
  have "parse_alerts lines = spec_parse_alerts strip_space_and_marks lines"
    by (simp add: parse_alerts_def parse_alerts_loop_eq alert_strip_chars_eq)
  moreover have "length (spec_parse_alerts strip_space_and_marks lines) \<le> length lines"
    by (simp add: spec_parse_alerts_def map_filter_def)
  ultimately show ?thesis by simp
qed

text \<open>The example line of the specification, alone and among lines that are skipped.\<close>

theorem parse_alerts_refines_witness:
  "parse_alerts [fed_line]
     = [\<lparr>a_headline = asc ''Fed raises rates'', a_stock = asc ''Banking'',
          a_impact = asc ''Negative'', a_summary = asc ''Higher rates squeeze margins''\<rparr>]
   \<and> parse_alerts [[], fed_line, asc ''no separator here'', fed_line]
       = parse_alerts [fed_line] @ parse_alerts [fed_line]"
  using parse_alerts_refines[of "[fed_line]"]
    parse_alerts_refines[of "[[], fed_line, asc ''no separator here'', fed_line]"]
  by (simp add: spec_parse_alerts_def map_filter_simps fed_line_alert no_alert_examples)

end
